theory Spec2Isabelle
  imports Complex_Main "HOL-Library.Sublist" "HOL-Library.Option_ord" "HOL-Library.Multiset"
begin

section \<open>Records of the store\<close>

text \<open>
  The two dashboards declare the rows they read as TypeScript interfaces. Identifiers and
  timestamps arrive as strings (\<^verbatim>\<open>string\<close>, \<^verbatim>\<open>string | null\<close>), scores as numbers.
  The field \<^verbatim>\<open>id\<close> is written \<open>id_Quiz\<close> and \<open>id_Response\<close> here, since \<open>id\<close> is the
  identity function of HOL. A nullable field is an \<open>option\<close>.

  \<^verbatim>\<open>total_marks\<close> is a percentage, of the type \<^verbatim>\<open>number\<close>. The record carries it as an
  integer and \<open>studentStats\<close> computes on integers exactly. The same expression in the
  arithmetic of IEEE doubles, for marks that are any double, is \<open>averageScore_number\<close>
  below; on integer marks whose magnitudes sum to less than \<open>2 ^ 52\<close> the two agree.
\<close>

record quiz =
  id_Quiz :: string
  title :: string
  description :: string
  duration :: int
  is_published :: bool
  scheduled_for :: "string option"
  created_at :: string

record quiz_count =
  questions_count :: int
  responses_count :: int

text \<open>The teacher's interface is the same row with the optional \<^verbatim>\<open>_count\<close>.\<close>

record teacher_quiz = quiz +
  count_opt :: "quiz_count option"

record quiz_info =
  quiz_title :: string
  quiz_duration :: int

record response =
  id_Response :: string
  quiz_id :: string
  total_marks :: int
  submitted_at :: string
  quiz_embed :: quiz_info

section \<open>Dates\<close>

text \<open>
  \<^verbatim>\<open>new Date(s)\<close> is a built-in of the language. It is a parameter \<open>Date\<close> of the model:
  \<open>Date s = Some t\<close> when \<open>s\<close> denotes the instant \<open>t\<close> (milliseconds since the epoch, an
  integer), and \<open>Date s = None\<close> for the Invalid Date, whose time value is NaN.
  \<^verbatim>\<open>new Date()\<close> is the reading of the clock, \<open>now\<close>, always a valid instant.

  \<^verbatim>\<open>a <= b\<close> on two dates compares their time values, and every comparison with NaN is
  false.
\<close>

type_synonym date_ctor = "string \<Rightarrow> int option"

definition date_le :: "int option \<Rightarrow> int option \<Rightarrow> bool" where
  "date_le a b = (case a of None \<Rightarrow> False
                  | Some x \<Rightarrow> (case b of None \<Rightarrow> False | Some y \<Rightarrow> x \<le> y))"

text \<open>
  Truthiness of a \<^verbatim>\<open>string | null\<close>: \<^verbatim>\<open>null\<close> and the empty string are falsy, every other
  string is truthy.
\<close>

definition truthy :: "string option \<Rightarrow> bool" where
  "truthy v = (case v of None \<Rightarrow> False | Some s \<Rightarrow> s \<noteq> [])"

text \<open>
  A well-formed quiz row carries in \<^verbatim>\<open>scheduled_for\<close> either \<^verbatim>\<open>null\<close> or the text of a
  timestamp: a non-empty string that \<open>Date\<close> reads as an instant. \<open>scheduled_instant\<close> is
  the instant it denotes.
\<close>

definition wf_scheduled :: "date_ctor \<Rightarrow> 'a quiz_scheme \<Rightarrow> bool" where
  "wf_scheduled Date q =
     (case scheduled_for q of None \<Rightarrow> True | Some s \<Rightarrow> s \<noteq> [] \<and> Date s \<noteq> None)"

definition scheduled_instant :: "date_ctor \<Rightarrow> 'a quiz_scheme \<Rightarrow> int option" where
  "scheduled_instant Date q = (case scheduled_for q of None \<Rightarrow> None | Some s \<Rightarrow> Date s)"

section \<open>StudentDashboard: fetching and filtering\<close>

text \<open>
  \<^verbatim>\<open>supabase.from('quizzes').select('*').eq('is_published', true)\<close>: the rows of the table
  whose publication flag is true. The order the store gives them is kept as it is.
\<close>

definition eq_is_published :: "quiz list \<Rightarrow> quiz list" where
  "eq_is_published rows = filter (\<lambda>row. is_published row = True) rows"

text \<open>\<^verbatim>\<open>new Set(responses?.map(r => r.quiz_id) || [])\<close>\<close>

definition attemptedQuizIds :: "response list option \<Rightarrow> string set" where
  "attemptedQuizIds responses =
     set (case responses of None \<Rightarrow> [] | Some rs \<Rightarrow> map (\<lambda>r. quiz_id r) rs)"

text \<open>\<^verbatim>\<open>quizzes?.filter(quiz => !attemptedQuizIds.has(quiz.id)) || []\<close>\<close>

definition filteredQuizzes :: "string set \<Rightarrow> quiz list option \<Rightarrow> quiz list" where
  "filteredQuizzes attempted quizzes =
     (case quizzes of None \<Rightarrow> []
      | Some qs \<Rightarrow> filter (\<lambda>quiz. \<not> (id_Quiz quiz \<in> attempted)) qs)"

text \<open>
  The list the dashboard keeps as \<^verbatim>\<open>availableQuizzes\<close>: the query on the table, then the
  filter on the attempted identifiers.
\<close>

definition availableList :: "string set \<Rightarrow> quiz list \<Rightarrow> quiz list" where
  "availableList attempted rows = filteredQuizzes attempted (Some (eq_is_published rows))"

section \<open>StudentDashboard: the schedule\<close>

text \<open>
  \<^verbatim>\<open>
  const isQuizAvailable = (quiz: Quiz) => {
    if (!quiz.scheduled_for) return true;
    return new Date(quiz.scheduled_for) <= new Date();
  };
  \<close>
\<close>

definition isQuizAvailable :: "date_ctor \<Rightarrow> int \<Rightarrow> quiz \<Rightarrow> bool" where
  "isQuizAvailable Date now quiz =
     (if \<not> truthy (scheduled_for quiz) then True
      else (case scheduled_for quiz of
              None \<Rightarrow> True
            | Some s \<Rightarrow> date_le (Date s) (Some now)))"

text \<open>
  In the \<open>else\<close> branch \<^verbatim>\<open>scheduled_for\<close> is a non-empty string, so the inner \<open>None\<close> case is
  never taken.

  A card of the list: the quiz with the value of \<^verbatim>\<open>available\<close>, which selects the badge
  (\<^verbatim>\<open>"Available"\<close> or \<^verbatim>\<open>"Scheduled"\<close>) and enables the start button
  (\<^verbatim>\<open>disabled={!available}\<close>). Every card reads the clock for itself; the readings taken
  while one list is rendered are taken to be the one instant \<open>now\<close>.
\<close>

definition cards :: "date_ctor \<Rightarrow> int \<Rightarrow> quiz list \<Rightarrow> (quiz \<times> bool) list" where
  "cards Date now qs = map (\<lambda>quiz. (quiz, isQuizAvailable Date now quiz)) qs"

section \<open>The lifecycle operations\<close>

text \<open>
  The component has no function of its own for the three lifecycle operations: each is
  what the code above does to one row of the table.

  \<open>availability\<close>: a row the query rejects is never shown (\<open>NotPublished\<close>); a row the
  query returns is classified by the badge \<^verbatim>\<open>isQuizAvailable\<close> selects for its card.

  \<open>visibleToStudent\<close>: the row is in the list the dashboard keeps, after the query and
  the filter on the attempted identifiers.

  \<open>attemptable\<close>: the row has a card in that list and the start button of the card is
  enabled.
\<close>

datatype availability_state = NotPublished | ScheduledFuture | Available

definition availability :: "date_ctor \<Rightarrow> quiz \<Rightarrow> int \<Rightarrow> availability_state" where
  "availability Date quiz now =
     (case cards Date now (eq_is_published [quiz]) of
        [] \<Rightarrow> NotPublished
      | (_, available) # _ \<Rightarrow> if available then Available else ScheduledFuture)"

definition visibleToStudent :: "quiz \<Rightarrow> string set \<Rightarrow> bool" where
  "visibleToStudent quiz attempted = (quiz \<in> set (availableList attempted [quiz]))"

definition attemptable :: "date_ctor \<Rightarrow> quiz \<Rightarrow> int \<Rightarrow> string set \<Rightarrow> bool" where
  "attemptable Date quiz now attempted =
     ((quiz, True) \<in> set (cards Date now (availableList attempted [quiz])))"

text \<open>The rule of the specification for \<open>availability\<close>, on the instant of the schedule.\<close>

definition availability_rule :: "bool \<Rightarrow> int option \<Rightarrow> int \<Rightarrow> availability_state" where
  "availability_rule flag sched now =
     (if \<not> flag then NotPublished
      else (case sched of
              None \<Rightarrow> Available
            | Some t \<Rightarrow> if t > now then ScheduledFuture else Available))"

section \<open>TeacherDashboard: the quick stats\<close>

text \<open>
  \<^verbatim>\<open>
  {quizzes.length}
  {quizzes.filter(q => q.is_published).length}
  {quizzes.filter(q => q.scheduled_for).length}
  \<close>
  The third filter keeps the rows whose \<^verbatim>\<open>scheduled_for\<close> is truthy.
\<close>

record quiz_counts =
  total :: nat
  published :: nat
  scheduled :: nat

definition quizCounts :: "teacher_quiz list \<Rightarrow> quiz_counts" where
  "quizCounts quizzes =
     \<lparr> total = length quizzes,
       published = length (filter (\<lambda>q. is_published q) quizzes),
       scheduled = length (filter (\<lambda>q. truthy (scheduled_for q)) quizzes) \<rparr>"

text \<open>
  Whether the schedule of a row has elapsed at \<open>now\<close>: it denotes an instant, and that
  instant is not after \<open>now\<close>.
\<close>

definition elapsed :: "date_ctor \<Rightarrow> int \<Rightarrow> 'a quiz_scheme \<Rightarrow> bool" where
  "elapsed Date now q = date_le (scheduled_instant Date q) (Some now)"

section \<open>StudentDashboard: the quick stats\<close>

text \<open>
  A number is a real, or \<open>None\<close> for the values that are not finite (NaN and the
  infinities). In the exact arithmetic of this section, division gives such a value
  exactly when the divisor is zero. \<^verbatim>\<open>Math.round\<close> gives the nearest integer, the upper
  one of two that are equally near, and leaves a value that is not finite as it is.
\<close>

type_synonym number = "real option"

definition divide_number :: "real \<Rightarrow> real \<Rightarrow> number" where
  "divide_number a b = (if b = 0 then None else Some (a / b))"

definition Math_round :: "number \<Rightarrow> int option" where
  "Math_round v = (case v of None \<Rightarrow> None | Some x \<Rightarrow> Some \<lfloor>x + 1 / 2\<rfloor>)"

text \<open>
  \<^verbatim>\<open>
  {availableQuizzes.length}
  {completedQuizzes.length}
  {completedQuizzes.length > 0
    ? Math.round(completedQuizzes.reduce((acc, quiz) => acc + quiz.total_marks, 0)
                 / completedQuizzes.length)
    : 0}%
  \<close>
\<close>

record student_stats =
  availableCount :: nat
  completedCount :: nat
  averageScore :: "int option"

definition studentStats :: "quiz list \<Rightarrow> response list \<Rightarrow> student_stats" where
  "studentStats available completed =
     \<lparr> availableCount = length available,
       completedCount = length completed,
       averageScore =
         (if length completed > 0
          then Math_round
                 (divide_number
                    (of_int (foldl (\<lambda>acc quiz. acc + total_marks quiz) 0 completed))
                    (of_nat (length completed)))
          else Some 0) \<rparr>"

text \<open>The mean of the scores, as the specification words it.\<close>

definition mean_marks :: "response list \<Rightarrow> real" where
  "mean_marks completed =
     of_int (sum_list (map total_marks completed)) / of_nat (length completed)"

section \<open>The average score in double arithmetic\<close>

text \<open>
  A \<^verbatim>\<open>number\<close> is an IEEE 754 binary64 value. The finite ones are the reals
  \<open>m * 2 ^ e\<close> with an integer \<open>m\<close> of magnitude below \<open>2 ^ 53\<close> and \<open>e\<close> from \<open>- 1074\<close>
  to \<open>971\<close>; \<open>None\<close> stands for NaN and the infinities. The sum and the quotient of two
  finite doubles are the exact results rounded to the nearest double, to the one with
  the even significand when two are equally near, and to an infinity from
  \<open>2 ^ 1024\<close> on.

  \<open>rne\<close> rounds a real to the nearest integer, to the even one of two that are equally
  near. \<open>ulp_exponent x\<close> is the exponent of the spacing of the doubles around \<open>x\<close>:
  52 below the exponent of \<open>x\<close>, and \<open>- 1074\<close> for the subnormal numbers. \<open>fl x\<close> is the
  double nearest to \<open>x\<close>.
\<close>

definition rne :: "real \<Rightarrow> int" where
  "rne y = (let f = \<lfloor>y\<rfloor>; d = y - of_int f
            in if d < 1 / 2 then f else if 1 / 2 < d then f + 1
               else if even f then f else f + 1)"

definition ulp_exponent :: "real \<Rightarrow> int" where
  "ulp_exponent x = max (\<lfloor>log 2 \<bar>x\<bar>\<rfloor> - 52) (- 1074)"

definition overflow_threshold :: real where
  "overflow_threshold = 2 ^ 1024"

definition fl :: "real \<Rightarrow> number" where
  "fl x = (if x = 0 then Some 0
           else (let u = 2 powr of_int (ulp_exponent x); r = of_int (rne (x / u)) * u
                 in if overflow_threshold \<le> \<bar>r\<bar> then None else Some r))"

text \<open>
  \<^verbatim>\<open>acc + quiz.total_marks\<close> and the division by \<^verbatim>\<open>completedQuizzes.length\<close>. A sum with a
  value that is not finite is not finite. The length of an array is an integer below
  \<open>2 ^ 32\<close>, a double; dividing by the length zero gives NaN or an infinity.
\<close>

definition plus_number :: "number \<Rightarrow> number \<Rightarrow> number" where
  "plus_number a b =
     (case a of None \<Rightarrow> None
      | Some x \<Rightarrow> (case b of None \<Rightarrow> None | Some y \<Rightarrow> fl (x + y)))"

definition divide_by_length :: "number \<Rightarrow> nat \<Rightarrow> number" where
  "divide_by_length a n =
     (case a of None \<Rightarrow> None
      | Some x \<Rightarrow> if n = 0 then None else fl (x / of_nat n))"

text \<open>
  The expression of the average score reads of each response only its \<^verbatim>\<open>total_marks\<close>.
  \<open>averageScore_number\<close> is that expression on the list of the marks, each a double:
  \<^verbatim>\<open>
  completedQuizzes.length > 0
    ? Math.round(completedQuizzes.reduce((acc, quiz) => acc + quiz.total_marks, 0)
                 / completedQuizzes.length)
    : 0
  \<close>
  \<^verbatim>\<open>Math.round\<close> is exact: the integer nearest to a double is a double.
\<close>

definition averageScore_number :: "real list \<Rightarrow> int option" where
  "averageScore_number marks =
     (if length marks > 0
      then Math_round
             (divide_by_length (foldl (\<lambda>acc m. plus_number acc (Some m)) (Some 0) marks)
                (length marks))
      else Some 0)"

section \<open>StudentDashboard: recent results\<close>

text \<open>
  \<^verbatim>\<open>arr.slice(start, end)\<close> for indices within \<open>0\<close> and above: a new array with the elements
  from \<open>start\<close> up to, not including, \<open>stop\<close>. The receiver is not changed. The model
  returns the new array together with the receiver as it is after the call.
\<close>

definition slice :: "nat \<Rightarrow> nat \<Rightarrow> 'a list \<Rightarrow> 'a list \<times> 'a list" where
  "slice start stop arr = (take (stop - start) (drop start arr), arr)"

text \<open>\<^verbatim>\<open>completedQuizzes.slice(0, 5)\<close>\<close>

definition recentResults :: "response list \<Rightarrow> response list \<times> response list" where
  "recentResults completed = slice 0 5 completed"

text \<open>
  The list the component holds as \<^verbatim>\<open>completedQuizzes\<close> is the reply to
  \<^verbatim>\<open>
  supabase.from('responses').select(...).eq('user_id', user?.id)
    .order('submitted_at', { ascending: false })
  \<close>
  From the rows of the user in the table, the store returns them ordered by the instant
  of \<^verbatim>\<open>submitted_at\<close>, the latest first. Rows submitted at the same instant come in an
  order the store chooses; here it is the reverse of the order in the table.
\<close>

definition responses_query :: "date_ctor \<Rightarrow> response list \<Rightarrow> response list" where
  "responses_query Date rows = rev (sort_key (\<lambda>r. Date (submitted_at r)) rows)"

text \<open>
  A list of responses is ordered by \<^verbatim>\<open>submitted_at\<close>, most recent first, when of any two
  entries the later one in the list was submitted no later than the earlier one.
\<close>

definition recent_first :: "date_ctor \<Rightarrow> response list \<Rightarrow> bool" where
  "recent_first Date rs =
     sorted_wrt (\<lambda>a b. Date (submitted_at b) \<le> Date (submitted_at a)) rs"

section \<open>The state of the component\<close>

text \<open>
  The state variables of \<^verbatim>\<open>StudentDashboard\<close>, with the user of the session.

  A query of the store answers with \<^verbatim>\<open>{ data, error }\<close>. \<^verbatim>\<open>fetchData\<close> throws on an error
  of either query; the handler shows a toast and the state lists stay as they were. On
  success it stores the filtered quizzes and the responses. In both cases
  \<^verbatim>\<open>setLoading(false)\<close> runs last. The model passes the state of the component through
  and returns, with it, the description of the toast if one was shown.
\<close>

record student_scope =
  user_email :: "string option"
  availableQuizzes :: "quiz list"
  completedQuizzes :: "response list"
  loading :: bool

record 'a query_result =
  qdata :: "'a list option"
  qerror :: "string option"

definition fetchData ::
  "quiz query_result \<Rightarrow> response query_result \<Rightarrow> student_scope
     \<Rightarrow> student_scope \<times> string option" where
  "fetchData quizzes_q responses_q sc =
     (if qerror quizzes_q \<noteq> None \<or> qerror responses_q \<noteq> None
      then (sc\<lparr> loading := False \<rparr>, Some ''Failed to fetch dashboard data'')
      else (sc\<lparr> availableQuizzes :=
                    filteredQuizzes (attemptedQuizIds (qdata responses_q)) (qdata quizzes_q),
                 completedQuizzes :=
                    (case qdata responses_q of None \<Rightarrow> [] | Some rs \<Rightarrow> rs),
                 loading := False \<rparr>, None))"

text \<open>The answer of a query that succeeded with the given rows.\<close>

definition answered :: "'a list \<Rightarrow> 'a query_result" where
  "answered rows = \<lparr> qdata = Some rows, qerror = None \<rparr>"

section \<open>Sample rows\<close>

text \<open>
  Rows and a clock for trying the definitions: the texts of ten timestamps with the
  instants they denote (every other string is read as the Invalid Date), a clock standing
  at 2024-05-01 09:00 UTC, and makers of rows that differ in the fields the rules read.
\<close>

definition sample_Date :: date_ctor where
  "sample_Date = map_of
       [(''2024-04-21T09:00:00+00:00'', 1713690000000),
        (''2024-04-22T09:00:00+00:00'', 1713776400000),
        (''2024-04-23T09:00:00+00:00'', 1713862800000),
        (''2024-04-24T09:00:00+00:00'', 1713949200000),
        (''2024-04-25T09:00:00+00:00'', 1714035600000),
        (''2024-04-26T09:00:00+00:00'', 1714122000000),
        (''2024-04-27T09:00:00+00:00'', 1714208400000),
        (''2024-04-30T09:00:00+00:00'', 1714467600000),
        (''2024-05-01T09:00:00+00:00'', 1714554000000),
        (''2024-05-02T09:00:00+00:00'', 1714640400000)]"

definition sample_now :: int where
  "sample_now = 1714554000000"

definition sample_quiz :: "string \<Rightarrow> bool \<Rightarrow> string option \<Rightarrow> quiz" where
  "sample_quiz i p s =
     \<lparr> id_Quiz = i, title = ''Algebra'', description = [], duration = 30,
       is_published = p, scheduled_for = s, created_at = ''2024-04-01T08:00:00+00:00'' \<rparr>"

definition sample_teacher_quiz :: "string \<Rightarrow> bool \<Rightarrow> string option \<Rightarrow> teacher_quiz" where
  "sample_teacher_quiz i p s =
     \<lparr> id_Quiz = i, title = ''Algebra'', description = [], duration = 30,
       is_published = p, scheduled_for = s, created_at = ''2024-04-01T08:00:00+00:00'',
       count_opt = None \<rparr>"

definition sample_response :: "string \<Rightarrow> int \<Rightarrow> string \<Rightarrow> response" where
  "sample_response q m t =
     \<lparr> id_Response = ''r-'' @ q, quiz_id = q, total_marks = m, submitted_at = t,
       quiz_embed = \<lparr> quiz_title = ''Algebra'', quiz_duration = 30 \<rparr> \<rparr>"

text \<open>
  The quizzes of the scenarios: A is published and scheduled the day before, B is
  published and scheduled the day after, C is published without a schedule, D is a draft
  whose schedule has passed, E is published and scheduled at the very instant of the clock.
\<close>

definition quiz_A :: quiz where
  "quiz_A = sample_quiz ''quiz-a'' True (Some ''2024-04-30T09:00:00+00:00'')"

definition quiz_B :: quiz where
  "quiz_B = sample_quiz ''quiz-b'' True (Some ''2024-05-02T09:00:00+00:00'')"

definition quiz_C :: quiz where
  "quiz_C = sample_quiz ''quiz-c'' True None"

definition quiz_D :: quiz where
  "quiz_D = sample_quiz ''quiz-d'' False (Some ''2024-04-30T09:00:00+00:00'')"

definition quiz_E :: quiz where
  "quiz_E = sample_quiz ''quiz-e'' True (Some ''2024-05-01T09:00:00+00:00'')"

text \<open>The rows of a teacher: three published quizzes, one of them unscheduled, and a draft.\<close>

definition teacher_rows :: "teacher_quiz list" where
  "teacher_rows =
     [sample_teacher_quiz ''quiz-a'' True (Some ''2024-04-30T09:00:00+00:00''),
      sample_teacher_quiz ''quiz-b'' True (Some ''2024-05-02T09:00:00+00:00''),
      sample_teacher_quiz ''quiz-c'' True None,
      sample_teacher_quiz ''quiz-d'' False (Some ''2024-04-30T09:00:00+00:00'')]"

text \<open>Responses: three scores, and seven responses most recent first.\<close>

definition scores_80_90_70 :: "response list" where
  "scores_80_90_70 =
     [sample_response ''quiz-a'' 80 ''2024-04-27T09:00:00+00:00'',
      sample_response ''quiz-b'' 90 ''2024-04-26T09:00:00+00:00'',
      sample_response ''quiz-c'' 70 ''2024-04-25T09:00:00+00:00'']"

definition seven_responses :: "response list" where
  "seven_responses =
     [sample_response ''quiz-1'' 80 ''2024-04-27T09:00:00+00:00'',
      sample_response ''quiz-2'' 90 ''2024-04-26T09:00:00+00:00'',
      sample_response ''quiz-3'' 70 ''2024-04-25T09:00:00+00:00'',
      sample_response ''quiz-4'' 55 ''2024-04-24T09:00:00+00:00'',
      sample_response ''quiz-5'' 100 ''2024-04-23T09:00:00+00:00'',
      sample_response ''quiz-6'' 0 ''2024-04-22T09:00:00+00:00'',
      sample_response ''quiz-7'' 61 ''2024-04-21T09:00:00+00:00'']"

text \<open>
  Two marks with a fraction: the doubles that the literals \<^verbatim>\<open>6.666666666666667\<close> and
  \<^verbatim>\<open>8.333333333333332\<close> denote.
\<close>

definition mark_6_67 :: real where
  "mark_6_67 = 7505999378950827 / 2 ^ 50"

definition mark_8_33 :: real where
  "mark_8_33 = 2345624805922133 / 2 ^ 48"

section \<open>Helper facts\<close>

subsection \<open>Filtering and the schedule\<close>

lemma eq_is_published_single:
  "eq_is_published [q] = (if is_published q then [q] else [])"
  by (simp add: eq_is_published_def)

lemma availableList_single:
  "availableList A [q] = (if is_published q \<and> id_Quiz q \<notin> A then [q] else [])"
  by (simp add: availableList_def filteredQuizzes_def eq_is_published_def)

lemma isQuizAvailable_wf:
  assumes "wf_scheduled Date q"
  shows "isQuizAvailable Date now q =
           (case scheduled_instant Date q of None \<Rightarrow> True | Some t \<Rightarrow> t \<le> now)"
  using assms
  by (auto simp: isQuizAvailable_def wf_scheduled_def scheduled_instant_def truthy_def
        date_le_def split: option.splits)

text \<open>
  Outside the well-formed rows: an empty string is falsy, so the quiz counts as
  available; a string that is no date compares false, so the quiz counts as scheduled.
\<close>

lemma isQuizAvailable_malformed:
  "isQuizAvailable Date now (q\<lparr> scheduled_for := Some [] \<rparr>)"
  "s \<noteq> [] \<Longrightarrow> Date s = None \<Longrightarrow> \<not> isQuizAvailable Date now (q\<lparr> scheduled_for := Some s \<rparr>)"
  by (simp_all add: isQuizAvailable_def truthy_def date_le_def)

text \<open>
  After a fetch that succeeded with the rows of the query on the table, the component
  keeps the list \<open>availableList\<close> describes.
\<close>

lemma fetchData_availableQuizzes:
  "availableQuizzes (fst (fetchData (answered (eq_is_published rows)) (answered rs) sc))
     = availableList (attemptedQuizIds (Some rs)) rows"
  by (simp add: fetchData_def answered_def availableList_def)

lemma filter_attempted_mono:
  assumes "A \<subseteq> B"
  shows "filter (\<lambda>quiz. \<not> (id_Quiz quiz \<in> B)) qs
           = filter (\<lambda>quiz. \<not> (id_Quiz quiz \<in> B))
               (filter (\<lambda>quiz. \<not> (id_Quiz quiz \<in> A)) qs)"
  using assms by (auto intro: filter_cong)

lemma filteredQuizzes_subseq:
  assumes "A \<subseteq> B"
  shows "subseq (filteredQuizzes B quizzes) (filteredQuizzes A quizzes)"
proof (cases quizzes)
  case None
  then show ?thesis by (simp add: filteredQuizzes_def)
next
  case (Some qs)
  have "subseq (filter (\<lambda>quiz. \<not> (id_Quiz quiz \<in> B))
                  (filter (\<lambda>quiz. \<not> (id_Quiz quiz \<in> A)) qs))
          (filter (\<lambda>quiz. \<not> (id_Quiz quiz \<in> A)) qs)"
    by (rule subseq_filter_left)
  then show ?thesis
    using filter_attempted_mono [OF assms, of qs] Some by (simp add: filteredQuizzes_def)
qed

subsection \<open>Counting and averaging\<close>

lemma length_filter_split:
  "length (filter P xs) =
     length (filter (\<lambda>x. P x \<and> Q x) xs) + length (filter (\<lambda>x. P x \<and> \<not> Q x) xs)"
  by (induction xs) simp_all

lemma truthy_nonnull:
  "v \<noteq> Some [] \<Longrightarrow> truthy v \<longleftrightarrow> v \<noteq> None"
  by (cases v) (simp_all add: truthy_def)

lemma foldl_total_marks:
  "foldl (\<lambda>acc quiz. acc + total_marks quiz) a cs = a + sum_list (map total_marks cs)"
  by (induction cs arbitrary: a) simp_all

lemma averageScore_nonempty:
  assumes "cs \<noteq> []"
  shows "averageScore (studentStats av cs) = Some (round (mean_marks cs))"
  using assms
  by (simp add: studentStats_def divide_number_def Math_round_def mean_marks_def
        foldl_total_marks round_def)

lemma averageScore_empty: "averageScore (studentStats av []) = Some 0"
  by (simp add: studentStats_def)


lemma recentResults_take: "recentResults cs = (take 5 cs, cs)"
  by (simp add: recentResults_def slice_def)

subsection \<open>Rounding to doubles\<close>

lemma rne_of_int [simp]: "rne (of_int k) = k"
  by (simp add: rne_def)

lemma rne_error: "\<bar>of_int (rne y) - y\<bar> \<le> 1 / 2"
  unfolding rne_def Let_def by (auto simp: abs_if) linarith+

lemma below_threshold:
  assumes "\<bar>r\<bar> \<le> 2 ^ 64"
  shows "\<not> overflow_threshold \<le> \<bar>r\<bar>"
proof -
  have "(2::real) ^ 64 < 2 ^ 1024"
    by (rule power_strict_increasing) simp_all
  then show ?thesis
    using assms unfolding overflow_threshold_def by linarith
qed

lemma ulp_exponent_eq:
  assumes "2 powr of_int k \<le> \<bar>x\<bar>" "\<bar>x\<bar> < 2 powr (of_int k + 1)" "- 1022 \<le> k"
  shows "ulp_exponent x = k - 52"
proof -
  have "0 < \<bar>x\<bar>" using assms(1) powr_gt_zero [of 2 "of_int k"] by linarith
  then have "\<lfloor>log 2 \<bar>x\<bar>\<rfloor> = k"
    using assms by (simp add: floor_log_eq_powr_iff)
  then show ?thesis using assms(3) by (simp add: ulp_exponent_def)
qed

lemma fl_at:
  fixes x :: real
  assumes "2 powr of_int k \<le> \<bar>x\<bar>" "\<bar>x\<bar> < 2 powr (of_int k + 1)" "- 1022 \<le> k"
    and "rne (x / 2 powr of_int (k - 52)) = m"
    and "\<bar>of_int m * 2 powr of_int (k - 52) :: real\<bar> \<le> 2 ^ 64"
  shows "fl x = Some (of_int m * 2 powr of_int (k - 52))"
proof -
  have "x \<noteq> 0" using assms(1) powr_gt_zero [of 2 "of_int k"] by auto
  then show ?thesis
    using assms(4) below_threshold [OF assms(5)]
    by (simp only: fl_def Let_def ulp_exponent_eq [OF assms(1-3)] if_False)
qed


lemma floor_log2_bounds:
  fixes x :: real
  assumes "x \<noteq> 0"
  shows "2 powr of_int \<lfloor>log 2 \<bar>x\<bar>\<rfloor> \<le> \<bar>x\<bar>"
    and "\<bar>x\<bar> < 2 powr (of_int \<lfloor>log 2 \<bar>x\<bar>\<rfloor> + 1)"
proof -
  have "0 < \<bar>x\<bar>" using assms by simp
  then have "2 powr of_int \<lfloor>log 2 \<bar>x\<bar>\<rfloor> \<le> \<bar>x\<bar>
             \<and> \<bar>x\<bar> < 2 powr (of_int \<lfloor>log 2 \<bar>x\<bar>\<rfloor> + 1)"
    using floor_log_eq_powr_iff [of "\<bar>x\<bar>" 2 "\<lfloor>log 2 \<bar>x\<bar>\<rfloor>"] by simp
  then show "2 powr of_int \<lfloor>log 2 \<bar>x\<bar>\<rfloor> \<le> \<bar>x\<bar>"
    and "\<bar>x\<bar> < 2 powr (of_int \<lfloor>log 2 \<bar>x\<bar>\<rfloor> + 1)"
    by simp_all
qed

lemma fl_half_int:
  fixes x :: real
  assumes "x = of_int m / 2" "\<bar>x\<bar> < 2 ^ 52"
  shows "fl x = Some x"
proof (cases "x = 0")
  case True
  then show ?thesis by (simp add: fl_def)
next
  case False
  define k where "k = \<lfloor>log 2 \<bar>x\<bar>\<rfloor>"
  have lo: "2 powr of_int k \<le> \<bar>x\<bar>" and hi: "\<bar>x\<bar> < 2 powr (of_int k + 1)"
    unfolding k_def using floor_log2_bounds [OF False] by simp_all
  have "m \<noteq> 0" using False assms(1) by auto
  then have "1 \<le> \<bar>m\<bar>" by simp
  then have "(1::real) \<le> \<bar>of_int m\<bar>" by (metis of_int_1_le_iff of_int_abs)
  then have "2 powr (- 1) \<le> \<bar>x\<bar>"
    using assms(1) by (simp add: powr_minus)
  then have "2 powr (- 1) < (2::real) powr (of_int k + 1)" using hi by linarith
  then have "(- 1 :: real) < of_int k + 1" by (rule powr_less_cancel) simp
  then have k1: "- 1 \<le> k" by linarith
  have "(2::real) powr 52 = 2 ^ 52" by (simp only: powr_numeral zero_le_numeral)
  then have "(2::real) powr of_int k < 2 powr 52" using lo assms(2) by linarith
  then have "(of_int k :: real) < 52" by (rule powr_less_cancel) simp
  then have k2: "k \<le> 51" by linarith
  define n where "n = nat (51 - k)"
  have kn: "k = 51 - int n" using k2 by (simp add: n_def)
  have ue: "ulp_exponent x = - (int n + 1)"
    using ulp_exponent_eq [OF lo hi] k1 by (simp add: kn)
  have u: "2 powr of_int (ulp_exponent x) = 1 / (2::real) ^ (n + 1)"
  proof -
    have "(of_int (ulp_exponent x) :: real) = - real (n + 1)"
      unfolding ue by simp
    then have "2 powr of_int (ulp_exponent x) = inverse ((2::real) powr real (n + 1))"
      by (simp only: powr_minus)
    also have "\<dots> = inverse (2 ^ (n + 1))"
      by (simp only: powr_realpow zero_less_numeral)
    finally show ?thesis by (simp only: inverse_eq_divide)
  qed
  have "x / (1 / 2 ^ (n + 1)) = of_int (m * 2 ^ n)"
    using assms(1) by simp
  then have r: "rne (x / (1 / 2 ^ (n + 1))) = m * 2 ^ n"
    by (simp only: rne_of_int)
  have bk: "of_int (m * 2 ^ n) * (1 / (2::real) ^ (n + 1)) = x"
    using assms(1) by simp
  have "(2::real) ^ 52 \<le> 2 ^ 64" by (rule power_increasing) simp_all
  then have "\<bar>x\<bar> \<le> 2 ^ 64" using assms(2) by linarith
  then have "\<not> overflow_threshold \<le> \<bar>x\<bar>" by (rule below_threshold)
  then show ?thesis
    using False by (simp only: fl_def Let_def u r bk if_False)
qed

lemma fl_of_int:
  assumes "\<bar>i\<bar> < 2 ^ 52"
  shows "fl (of_int i) = Some (of_int i)"
proof (rule fl_half_int [of _ "2 * i"])
  show "(of_int i :: real) = of_int (2 * i) / 2" by simp
  have "(of_int \<bar>i\<bar> :: real) < of_int (2 ^ 52)" using assms by (simp only: of_int_less_iff)
  then show "\<bar>of_int i :: real\<bar> < 2 ^ 52" by simp
qed

lemma fl_near:
  fixes x :: real
  assumes "2 powr (- 1022) \<le> \<bar>x\<bar>" "\<bar>x\<bar> \<le> 2 ^ 63"
  shows "\<exists>r. fl x = Some r \<and> \<bar>r - x\<bar> \<le> \<bar>x\<bar> / 2 ^ 53"
proof -
  have nz: "x \<noteq> 0" using assms(1) powr_gt_zero [of 2 "- 1022"] by auto
  define k where "k = \<lfloor>log 2 \<bar>x\<bar>\<rfloor>"
  have lo: "2 powr of_int k \<le> \<bar>x\<bar>" and hi: "\<bar>x\<bar> < 2 powr (of_int k + 1)"
    unfolding k_def using floor_log2_bounds [OF nz] by simp_all
  have "2 powr (- 1022) < (2::real) powr (of_int k + 1)" using assms(1) hi by linarith
  then have "(- 1022 :: real) < of_int k + 1" by (rule powr_less_cancel) simp
  then have k1: "- 1022 \<le> k" by linarith
  have ue: "ulp_exponent x = k - 52"
    by (rule ulp_exponent_eq [OF lo hi k1])
  define u :: real where "u = 2 powr of_int (k - 52)"
  have upos: "0 < u" by (simp add: u_def)
  have "u = 2 powr of_int k / 2 powr 52"
    by (simp add: u_def powr_diff)
  then have ule: "u \<le> \<bar>x\<bar> / 2 ^ 52"
    using lo by (simp add: divide_right_mono)
  define r where "r = of_int (rne (x / u)) * u"
  have "r - x = (of_int (rne (x / u)) - x / u) * u"
    using upos by (simp add: r_def field_simps)
  then have "\<bar>r - x\<bar> = \<bar>of_int (rne (x / u)) - x / u\<bar> * u"
    using upos by (simp add: abs_mult)
  also have "\<dots> \<le> 1 / 2 * u"
    using rne_error [of "x / u"] upos by (simp add: mult_right_mono)
  also have "\<dots> \<le> \<bar>x\<bar> / 2 ^ 53" using ule by simp
  finally have err: "\<bar>r - x\<bar> \<le> \<bar>x\<bar> / 2 ^ 53" .
  have "\<bar>x\<bar> / 2 ^ 53 \<le> \<bar>x\<bar>" by (simp add: divide_le_eq)
  then have "\<bar>r\<bar> \<le> 2 * \<bar>x\<bar>" using err by linarith
  then have "\<bar>r\<bar> \<le> 2 ^ 64" using assms(2) by simp
  then have "\<not> overflow_threshold \<le> \<bar>r\<bar>" by (rule below_threshold)
  then have "fl x = Some r"
    using nz by (simp add: fl_def Let_def ue u_def r_def)
  then show ?thesis using err by blast
qed

lemma foldl_plus_exact:
  assumes "\<bar>a\<bar> + sum_list (map abs ms) < 2 ^ 52"
  shows "foldl (\<lambda>acc m. plus_number acc (Some m)) (Some (of_int a)) (map of_int ms)
           = Some (of_int (a + sum_list ms))"
  using assms
proof (induction ms arbitrary: a)
  case Nil
  then show ?case by simp
next
  case (Cons m ms)
  have "0 \<le> sum_list (map abs ms)" by (induction ms) simp_all
  then have "\<bar>a + m\<bar> < 2 ^ 52" using Cons.prems by simp
  then have step: "plus_number (Some (of_int a)) (Some (of_int m)) = Some (of_int (a + m))"
    using fl_of_int [of "a + m"] by (simp add: plus_number_def)
  have "\<bar>a + m\<bar> + sum_list (map abs ms) < 2 ^ 52" using Cons.prems by simp
  from Cons.IH [OF this] show ?case by (simp add: step add.assoc)
qed

text \<open>
  The quotient \<open>q\<close> of an integer \<open>s\<close> by a length \<open>n\<close> lies at a multiple of \<open>1 / (2 n)\<close>
  from the half-integers next to it, and its double lies nearer than \<open>1 / (2 n)\<close> to it
  while \<open>s\<close> is below \<open>2 ^ 52\<close>: rounding the double gives the integer rounding \<open>q\<close> gives.
\<close>

lemma Math_round_divide_exact:
  assumes s: "\<bar>s\<bar> < 2 ^ 52" and n: "0 < n" "n < 2 ^ 32"
  shows "Math_round (divide_by_length (Some (of_int s)) n)
           = Some (round (of_int s / of_nat n :: real))"
proof (cases "s = 0")
  case True
  then show ?thesis using n by (simp add: divide_by_length_def fl_def Math_round_def)
next
  case False
  define q :: real where "q = of_int s / of_nat n"
  define k where "k = round q"
  have npos: "(0::real) < of_nat n" using n by simp
  have nle: "real n < 2 ^ 32" using n(2) by (metis of_nat_less_iff of_nat_numeral of_nat_power)
  have sabs: "\<bar>of_int s :: real\<bar> < 2 ^ 52"
    using s by (metis of_int_abs of_int_less_iff of_int_numeral of_int_power)
  have "1 \<le> \<bar>s\<bar>" using False by simp
  then have "(1::real) \<le> of_int \<bar>s\<bar>" by (simp only: of_int_1_le_iff)
  then have s1: "(1::real) \<le> \<bar>of_int s\<bar>" by simp
  have qabs: "\<bar>q\<bar> = \<bar>of_int s\<bar> / of_nat n"
    using npos by (simp add: q_def)
  have "\<bar>q\<bar> \<le> \<bar>of_int s\<bar>"
    unfolding qabs using npos n(1) by (simp add: divide_le_eq mult_le_cancel_left1)
  then have qhi: "\<bar>q\<bar> < 2 ^ 52" using sabs by linarith
  have "(2::real) ^ 52 \<le> 2 ^ 63" by (rule power_increasing) simp_all
  then have qhi': "\<bar>q\<bar> \<le> 2 ^ 63" using qhi by linarith
  have "1 / 2 ^ 32 < \<bar>q\<bar>"
    unfolding qabs using npos nle s1 by (simp add: field_simps)
  moreover have "(2::real) powr (- 1022) \<le> 1 / 2 ^ 32"
  proof -
    have "(2::real) powr (- 1022) \<le> 2 powr (- 32)" by (rule powr_mono) simp_all
    also have "\<dots> = 1 / 2 ^ 32" by (simp add: powr_minus inverse_eq_divide)
    finally show ?thesis .
  qed
  ultimately have qlo: "2 powr (- 1022) \<le> \<bar>q\<bar>" by linarith
  from fl_near [OF qlo qhi'] obtain r where r: "fl q = Some r" and err: "\<bar>r - q\<bar> \<le> \<bar>q\<bar> / 2 ^ 53"
    by blast
  have "\<bar>q\<bar> / 2 ^ 53 < 1 / (2 * of_nat n)"
    unfolding qabs using npos sabs by (simp add: field_simps)
  then have close: "\<bar>r - q\<bar> < 1 / (2 * of_nat n)" using err by linarith
  have klo: "of_int k - 1 / 2 \<le> q" and khi: "q < of_int k + 1 / 2"
    unfolding k_def using of_int_round_le [of q] of_int_round_gt [of q] by linarith+
  define up where "up = (2 * k + 1) * int n - 2 * s"
  define dn where "dn = 2 * s - (2 * k - 1) * int n"
  have upq: "of_int k + 1 / 2 - q = of_int up / (2 * of_nat n)"
    using npos by (simp add: up_def q_def field_simps)
  have dnq: "q - (of_int k - 1 / 2) = of_int dn / (2 * of_nat n)"
    using npos by (simp add: dn_def q_def field_simps)
  have "0 < (of_int up :: real) / (2 * of_nat n)" using khi upq by linarith
  then have "0 < (of_int up :: real)" using npos by (simp add: zero_less_divide_iff)
  then have "1 \<le> up" by simp
  then have "(1::real) \<le> of_int up" by (simp only: of_int_1_le_iff)
  then have "1 / (2 * of_nat n) \<le> of_int k + 1 / 2 - q"
    unfolding upq using npos by (simp add: divide_right_mono)
  then have rhi: "r < of_int k + 1 / 2" using close by linarith
  have rlo: "of_int k - 1 / 2 \<le> r"
  proof (cases "dn = 0")
    case True
    then have qk: "q = of_int (2 * k - 1) / 2" using dnq by simp
    from fl_half_int [OF qk qhi] r have "r = q" by simp
    then show ?thesis using klo by simp
  next
    case False
    have "0 \<le> (of_int dn :: real) / (2 * of_nat n)" using klo dnq by linarith
    then have "0 \<le> (of_int dn :: real)" using npos by (simp add: zero_le_divide_iff)
    then have "1 \<le> dn" using False by simp
    then have "(1::real) \<le> of_int dn" by (simp only: of_int_1_le_iff)
    then have "1 / (2 * of_nat n) \<le> q - (of_int k - 1 / 2)"
      unfolding dnq using npos by (simp add: divide_right_mono)
    then show ?thesis using close by linarith
  qed
  have "\<lfloor>r + 1 / 2\<rfloor> = k"
    by (rule floor_unique) (use rlo rhi in linarith)+
  then show ?thesis
    using n(1) r by (simp add: divide_by_length_def Math_round_def q_def k_def)
qed

lemma sum_abs_bound:
  fixes ms :: "int list"
  shows "\<bar>sum_list ms\<bar> \<le> sum_list (map abs ms)"
  by (induction ms) auto

lemma averageScore_number_int_marks:
  assumes "ms \<noteq> []" "length ms < 2 ^ 32" "sum_list (map abs ms) < 2 ^ 52"
  shows "averageScore_number (map of_int ms)
           = Some (round (of_int (sum_list ms) / of_nat (length ms) :: real))"
proof -
  have "foldl (\<lambda>acc m. plus_number acc (Some m)) (Some (of_int 0)) (map of_int ms)
          = Some (of_int (0 + sum_list ms))"
    by (rule foldl_plus_exact) (use assms(3) in simp)
  then have sum: "foldl (\<lambda>acc m. plus_number acc (Some m)) (Some 0) (map of_int ms)
          = Some (of_int (sum_list ms))"
    by simp
  have "\<bar>sum_list ms\<bar> < 2 ^ 52"
    using sum_abs_bound [of ms] assms(3) by linarith
  moreover have "0 < length ms" using assms(1) by simp
  ultimately show ?thesis
    using assms(2) by (simp add: averageScore_number_def sum Math_round_divide_exact)
qed

lemma mark_6_67_double: "fl (6666666666666667 / 10 ^ 15) = Some mark_6_67"
proof -
  have "fl (6666666666666667 / 10 ^ 15)
      = Some (of_int 7505999378950827 * 2 powr of_int (2 - 52))"
    by (rule fl_at) (simp_all add: powr_minus rne_def)
  then show ?thesis by (simp add: powr_minus mark_6_67_def)
qed

lemma mark_8_33_double: "fl (8333333333333332 / 10 ^ 15) = Some mark_8_33"
proof -
  have "fl (8333333333333332 / 10 ^ 15)
      = Some (of_int 4691249611844266 * 2 powr of_int (3 - 52))"
    by (rule fl_at) (simp_all add: powr_minus rne_def)
  then show ?thesis by (simp add: powr_minus mark_8_33_def)
qed

lemma fl_mark_6_67: "fl mark_6_67 = Some mark_6_67"
proof -
  have "fl mark_6_67 = Some (of_int 7505999378950827 * 2 powr of_int (2 - 52))"
    by (rule fl_at) (simp_all add: powr_minus rne_def mark_6_67_def)
  then show ?thesis by (simp add: powr_minus mark_6_67_def)
qed

lemma fl_marks_sum: "fl (mark_6_67 + mark_8_33) = Some 15"
proof -
  have "fl (mark_6_67 + mark_8_33)
      = Some (of_int 8444249301319680 * 2 powr of_int (3 - 52))"
    by (rule fl_at) (simp_all add: powr_minus rne_def mark_6_67_def mark_8_33_def)
  then show ?thesis by (simp add: powr_minus)
qed

lemma fl_15_halves: "fl (15 / 2) = Some (15 / 2)"
  using fl_half_int [of "15 / 2" 15] by simp

text \<open>
  Beyond \<open>2 ^ 53\<close> the sum is no longer exact: of the marks \<open>2 ^ 53\<close> and 1 the sum is
  rounded back to \<open>2 ^ 53\<close>.
\<close>

lemma averageScore_number_large:
  "averageScore_number [2 ^ 53, 1] = Some (2 ^ 52)"
proof -
  have a: "fl (2 ^ 53) = Some (2 ^ 53)"
  proof -
    have "fl (2 ^ 53) = Some (of_int (2 ^ 52) * 2 powr of_int (53 - 52))"
      by (rule fl_at) (simp_all add: rne_def)
    then show ?thesis by simp
  qed
  have b: "fl (2 ^ 53 + 1) = Some (2 ^ 53)"
  proof -
    have "fl (2 ^ 53 + 1) = Some (of_int (2 ^ 52) * 2 powr of_int (53 - 52))"
      by (rule fl_at) (simp_all add: rne_def)
    then show ?thesis by simp
  qed
  have c: "fl (2 ^ 53 / 2) = Some (2 ^ 52)"
  proof -
    have "fl (2 ^ 53 / 2) = Some (of_int (2 ^ 52) * 2 powr of_int (52 - 52))"
      by (rule fl_at) (simp_all add: rne_def)
    then show ?thesis by simp
  qed
  show ?thesis
    using a b c
    by (simp add: averageScore_number_def plus_number_def divide_by_length_def Math_round_def)
qed

subsection \<open>The ordered reply\<close>

lemma responses_query_mset: "mset (responses_query Date rows) = mset rows"
  by (simp add: responses_query_def)

lemma responses_query_recent_first: "recent_first Date (responses_query Date rows)"
proof -
  have "sorted (map (\<lambda>r. Date (submitted_at r)) (sort_key (\<lambda>r. Date (submitted_at r)) rows))"
    by (rule sorted_sort_key)
  then have "sorted_wrt (\<lambda>a b. Date (submitted_at a) \<le> Date (submitted_at b))
               (sort_key (\<lambda>r. Date (submitted_at r)) rows)"
    by (simp add: sorted_map)
  then show ?thesis
    by (simp add: recent_first_def responses_query_def sorted_wrt_rev)
qed

text \<open>After a fetch that succeeded, the component holds the reply of the store as it is.\<close>

lemma fetchData_completedQuizzes:
  "completedQuizzes (fst (fetchData (answered qs) (answered (responses_query Date rows)) sc))
     = responses_query Date rows"
  by (simp add: fetchData_def answered_def)

lemma sample_query:
  "map quiz_id (responses_query sample_Date (rev seven_responses))
     = [''quiz-1'', ''quiz-2'', ''quiz-3'', ''quiz-4'', ''quiz-5'', ''quiz-6'', ''quiz-7'']"
  by (simp add: responses_query_def seven_responses_def sample_response_def sample_Date_def)

subsection \<open>The sample rows\<close>

lemma sample_quizzes:
  "is_published quiz_A" "is_published quiz_B" "is_published quiz_C"
  "\<not> is_published quiz_D" "is_published quiz_E"
  "id_Quiz quiz_A = ''quiz-a''" "id_Quiz quiz_B = ''quiz-b''" "id_Quiz quiz_C = ''quiz-c''"
  "id_Quiz quiz_D = ''quiz-d''" "id_Quiz quiz_E = ''quiz-e''"
  by (simp_all add: quiz_A_def quiz_B_def quiz_C_def quiz_D_def quiz_E_def sample_quiz_def)

lemma sample_wf:
  "wf_scheduled sample_Date quiz_A" "wf_scheduled sample_Date quiz_B"
  "wf_scheduled sample_Date quiz_C" "wf_scheduled sample_Date quiz_D"
  "wf_scheduled sample_Date quiz_E"
  by (simp_all add: wf_scheduled_def quiz_A_def quiz_B_def quiz_C_def quiz_D_def quiz_E_def
        sample_quiz_def sample_Date_def)

lemma sample_instants:
  "scheduled_instant sample_Date quiz_A = Some 1714467600000"
  "scheduled_instant sample_Date quiz_B = Some 1714640400000"
  "scheduled_instant sample_Date quiz_C = None"
  "scheduled_instant sample_Date quiz_D = Some 1714467600000"
  "scheduled_instant sample_Date quiz_E = Some sample_now"
  by (simp_all add: scheduled_instant_def quiz_A_def quiz_B_def quiz_C_def quiz_D_def
        quiz_E_def sample_quiz_def sample_Date_def sample_now_def)

lemma sample_isQuizAvailable:
  "isQuizAvailable sample_Date sample_now quiz_A"
  "\<not> isQuizAvailable sample_Date sample_now quiz_B"
  "isQuizAvailable sample_Date sample_now quiz_C"
  "isQuizAvailable sample_Date sample_now quiz_D"
  "isQuizAvailable sample_Date sample_now quiz_E"
  by (simp_all add: isQuizAvailable_wf sample_wf sample_instants) (simp_all add: sample_now_def)

section \<open>The claims\<close>

text \<open>
  C1. For every well-formed quiz and every reference time \<open>now\<close>, \<open>availability\<close> is
  \<open>NotPublished\<close> when the publication flag is false; otherwise \<open>ScheduledFuture\<close> when
  the schedule is present and its instant is after \<open>now\<close>; otherwise \<open>Available\<close>. The
  boundary is inclusive: a published quiz scheduled exactly at \<open>now\<close> is \<open>Available\<close>.
  Well-formed means that \<^verbatim>\<open>scheduled_for\<close> is \<^verbatim>\<open>null\<close> or the text of a timestamp.
\<close>

theorem availability_follows_rule:
  assumes "wf_scheduled Date q"
  shows "availability Date q now =
           availability_rule (is_published q) (scheduled_instant Date q) now
         \<and> (is_published q \<and> scheduled_instant Date q = Some now
              \<longrightarrow> availability Date q now = Available)"
proof -
  have rule: "availability Date q now =
           availability_rule (is_published q) (scheduled_instant Date q) now"
    using assms
    by (auto simp: availability_def cards_def eq_is_published_single isQuizAvailable_wf
          availability_rule_def split: option.splits)
  moreover have "availability_rule True (Some now) now = Available"
    by (simp add: availability_rule_def)
  ultimately show ?thesis by auto
qed

theorem availability_follows_rule_witness:
  "wf_scheduled sample_Date quiz_E \<and> is_published quiz_E
   \<and> scheduled_instant sample_Date quiz_E = Some sample_now
   \<and> availability sample_Date quiz_E sample_now = Available
   \<and> wf_scheduled sample_Date quiz_B
   \<and> availability sample_Date quiz_B sample_now = ScheduledFuture
   \<and> wf_scheduled sample_Date quiz_D
   \<and> availability sample_Date quiz_D sample_now = NotPublished
   \<and> wf_scheduled sample_Date quiz_A
   \<and> availability sample_Date quiz_A sample_now = Available
   \<and> wf_scheduled sample_Date quiz_C
   \<and> availability sample_Date quiz_C (sample_now - 1) = Available"
  using availability_follows_rule [OF sample_wf(5), of sample_now]
    availability_follows_rule [OF sample_wf(2), of sample_now]
    availability_follows_rule [OF sample_wf(4), of sample_now]
    availability_follows_rule [OF sample_wf(1), of sample_now]
    availability_follows_rule [OF sample_wf(3), of "sample_now - 1"]
  by (simp add: sample_wf sample_instants sample_quizzes availability_rule_def sample_now_def)

text \<open>
  C2. For every quiz, every reference time and every set of attempted identifiers,
  \<open>attemptable\<close> holds iff \<open>visibleToStudent\<close> holds and \<open>availability\<close> is \<open>Available\<close>;
  it is false for a quiz whose identifier is in the attempted set, whatever its schedule.
\<close>

theorem attemptable_iff_visible_and_available:
  "(attemptable Date q now A \<longleftrightarrow>
      visibleToStudent q A \<and> availability Date q now = Available)
   \<and> (id_Quiz q \<in> A \<longrightarrow> \<not> attemptable Date q now A)"
  by (auto simp: attemptable_def visibleToStudent_def availability_def cards_def
        availableList_single eq_is_published_single)

theorem attemptable_iff_visible_and_available_witness:
  "id_Quiz quiz_C \<in> {''quiz-c''}
   \<and> availability sample_Date quiz_C sample_now = Available
   \<and> \<not> attemptable sample_Date quiz_C sample_now {''quiz-c''}
   \<and> attemptable sample_Date quiz_A sample_now {}
   \<and> \<not> attemptable sample_Date quiz_B sample_now {}"
proof -
  have v: "visibleToStudent quiz_A {}" "visibleToStudent quiz_B {}"
    by (simp_all add: visibleToStudent_def availableList_single sample_quizzes)
  have a: "availability sample_Date quiz_A sample_now = Available"
    "availability sample_Date quiz_B sample_now = ScheduledFuture"
    "availability sample_Date quiz_C sample_now = Available"
    by (simp_all add: availability_def cards_def eq_is_published_single sample_quizzes
          sample_isQuizAvailable)
  show ?thesis
    using attemptable_iff_visible_and_available [of sample_Date quiz_C sample_now "{''quiz-c''}"]
      attemptable_iff_visible_and_available [of sample_Date quiz_A sample_now "{}"]
      attemptable_iff_visible_and_available [of sample_Date quiz_B sample_now "{}"]
    by (auto simp: v a sample_quizzes)
qed

text \<open>
  C3. For every quiz and every set of attempted identifiers, \<open>visibleToStudent\<close> holds iff
  the publication flag is true and the identifier of the quiz is not in the set. A quiz
  that is not published is never visible, also when its schedule has passed. The list the
  dashboard keeps holds exactly the rows of the table that are visible.
\<close>

theorem visibleToStudent_iff_published_unattempted:
  "(visibleToStudent q A \<longleftrightarrow> is_published q \<and> id_Quiz q \<notin> A)
   \<and> (\<not> is_published q \<longrightarrow> \<not> visibleToStudent q A)
   \<and> set (availableList A rows) = {r \<in> set rows. is_published r \<and> id_Quiz r \<notin> A}"
  by (auto simp: visibleToStudent_def availableList_single availableList_def
        filteredQuizzes_def eq_is_published_def)

theorem visibleToStudent_iff_published_unattempted_witness:
  "\<not> is_published quiz_D \<and> elapsed sample_Date sample_now quiz_D
   \<and> \<not> visibleToStudent quiz_D {}
   \<and> visibleToStudent quiz_A {} \<and> \<not> visibleToStudent quiz_A {''quiz-a''}"
proof -
  have e: "elapsed sample_Date sample_now quiz_D"
    by (simp add: elapsed_def sample_instants date_le_def) (simp add: sample_now_def)
  show ?thesis
    using visibleToStudent_iff_published_unattempted [of quiz_D "{}" "[]"]
      visibleToStudent_iff_published_unattempted [of quiz_A "{}" "[]"]
      visibleToStudent_iff_published_unattempted [of quiz_A "{''quiz-a''}" "[]"]
    by (simp add: e sample_quizzes)
qed

text \<open>
  C4, as the specification states it: for every non-empty list of completed responses the
  average score of \<open>studentStats\<close> is the arithmetic mean of the \<^verbatim>\<open>total_marks\<close> values
  rounded to the nearest integer. The marks are doubles, and so are their sum and the
  quotient. Of the two marks \<^verbatim>\<open>6.666666666666667\<close> and \<^verbatim>\<open>8.333333333333332\<close> the sum is
  rounded to 15 and the quotient is 7.5, so the average score is 8; their mean is below
  7.5 and the integer nearest to it is 7.
\<close>

theorem averageScore_fractional_counterexample:
  "fl (6666666666666667 / 10 ^ 15) = Some mark_6_67
   \<and> fl (8333333333333332 / 10 ^ 15) = Some mark_8_33
   \<and> averageScore_number [mark_6_67, mark_8_33] = Some 8
   \<and> round ((mark_6_67 + mark_8_33) / 2) = 7
   \<and> \<bar>(mark_6_67 + mark_8_33) / 2 - 7\<bar> < \<bar>(mark_6_67 + mark_8_33) / 2 - 8\<bar>"
proof -
  have a: "averageScore_number [mark_6_67, mark_8_33] = Some 8"
    by (simp add: averageScore_number_def plus_number_def divide_by_length_def fl_mark_6_67
          fl_marks_sum fl_15_halves Math_round_def)
  have b: "round ((mark_6_67 + mark_8_33) / 2) = 7"
    by (simp add: round_def mark_6_67_def mark_8_33_def)
  have c: "\<bar>(mark_6_67 + mark_8_33) / 2 - 7\<bar> < \<bar>(mark_6_67 + mark_8_33) / 2 - 8\<bar>"
    by (simp add: mark_6_67_def mark_8_33_def)
  show ?thesis
    by (intro conjI) (rule mark_6_67_double mark_8_33_double a b c)+
qed

text \<open>
  C4, amended. For every non-empty list of completed responses, of a length below
  \<open>2 ^ 32\<close> as every array has, whose \<^verbatim>\<open>total_marks\<close> are integers with magnitudes that sum
  to less than \<open>2 ^ 52\<close>, the average score is the arithmetic mean of the marks rounded to
  the nearest integer: no integer is nearer to the mean. It is so in double arithmetic,
  and the exact arithmetic of \<open>studentStats\<close> gives the same. For the scores 80, 90 and
  70 it is 80.
\<close>

theorem averageScore_integer_marks:
  assumes "completed \<noteq> []" and "length completed < 2 ^ 32"
    and "sum_list (map (\<lambda>r. \<bar>total_marks r\<bar>) completed) < 2 ^ 52"
  shows "averageScore_number (map (\<lambda>r. of_int (total_marks r)) completed)
           = Some (round (mean_marks completed))
       \<and> averageScore (studentStats available completed) = Some (round (mean_marks completed))
       \<and> (\<forall>m::int. \<bar>mean_marks completed - of_int (round (mean_marks completed))\<bar>
                    \<le> \<bar>mean_marks completed - of_int m\<bar>)"
proof -
  let ?ms = "map total_marks completed"
  have "averageScore_number (map of_int ?ms)
          = Some (round (of_int (sum_list ?ms) / of_nat (length ?ms) :: real))"
    by (rule averageScore_number_int_marks) (use assms in \<open>simp_all add: comp_def\<close>)
  then have "averageScore_number (map (\<lambda>r. of_int (total_marks r)) completed)
          = Some (round (mean_marks completed))"
    by (simp add: mean_marks_def comp_def)
  then show ?thesis
    using assms(1) by (simp add: averageScore_nonempty round_diff_minimal)
qed

theorem averageScore_integer_marks_witness:
  "scores_80_90_70 \<noteq> [] \<and> length scores_80_90_70 < 2 ^ 32
   \<and> map total_marks scores_80_90_70 = [80, 90, 70]
   \<and> sum_list (map (\<lambda>r. \<bar>total_marks r\<bar>) scores_80_90_70) < 2 ^ 52
   \<and> averageScore_number (map (\<lambda>r. of_int (total_marks r)) scores_80_90_70) = Some 80
   \<and> averageScore (studentStats [] scores_80_90_70) = Some 80"
proof -
  have ne: "scores_80_90_70 \<noteq> []" and len: "length scores_80_90_70 < 2 ^ 32"
    by (simp_all add: scores_80_90_70_def)
  have marks: "map total_marks scores_80_90_70 = [80, 90, 70]"
    by (simp add: scores_80_90_70_def sample_response_def)
  have small: "sum_list (map (\<lambda>r. \<bar>total_marks r\<bar>) scores_80_90_70) < 2 ^ 52"
    by (simp add: scores_80_90_70_def sample_response_def)
  have "mean_marks scores_80_90_70 = 80"
    by (simp add: mean_marks_def marks) (simp add: scores_80_90_70_def)
  then show ?thesis
    using averageScore_integer_marks [OF ne len small, of "[]"] ne len marks small by simp
qed

text \<open>
  C5. On an empty list of completed responses the average score of \<open>studentStats\<close> is 0.
  The division is behind the test on the length, so on no list is the result the value
  that a division by zero would give: the operation is total.
\<close>

theorem averageScore_empty_guarded:
  "averageScore (studentStats available []) = Some 0
   \<and> averageScore (studentStats available completed) \<noteq> None"
  by (cases "completed = []") (simp_all add: averageScore_empty averageScore_nonempty)

text \<open>
  C6. For every list of well-formed quizzes, \<open>quizCounts\<close> gives as \<open>total\<close> the number
  of quizzes, as \<open>published\<close> the number whose publication flag is true, and as
  \<open>scheduled\<close> the number whose \<^verbatim>\<open>scheduled_for\<close> is not \<^verbatim>\<open>null\<close>, whether that time has
  elapsed or not: at every reading of the clock it is the sum of the elapsed and the not
  elapsed ones. On the empty list the three counts are 0. Well-formed means here that no
  \<^verbatim>\<open>scheduled_for\<close> is the empty string.
\<close>

theorem quizCounts_counts:
  assumes "\<forall>q \<in> set quizzes. scheduled_for q \<noteq> Some []"
  shows "total (quizCounts quizzes) = length quizzes
       \<and> published (quizCounts quizzes) = length (filter (\<lambda>q. is_published q) quizzes)
       \<and> scheduled (quizCounts quizzes)
           = length (filter (\<lambda>q. scheduled_for q \<noteq> None) quizzes)
       \<and> scheduled (quizCounts quizzes)
           = length (filter (\<lambda>q. scheduled_for q \<noteq> None \<and> elapsed Date now q) quizzes)
             + length (filter (\<lambda>q. scheduled_for q \<noteq> None \<and> \<not> elapsed Date now q) quizzes)
       \<and> quizCounts [] = \<lparr> total = 0, published = 0, scheduled = 0 \<rparr>"
proof -
  have "filter (\<lambda>q. truthy (scheduled_for q)) quizzes
          = filter (\<lambda>q. scheduled_for q \<noteq> None) quizzes"
    using assms by (intro filter_cong) (simp_all add: truthy_nonnull)
  then have sch: "scheduled (quizCounts quizzes)
          = length (filter (\<lambda>q. scheduled_for q \<noteq> None) quizzes)"
    by (simp add: quizCounts_def)
  show ?thesis
    unfolding sch
    using length_filter_split [of "\<lambda>q. scheduled_for q \<noteq> None" quizzes "elapsed Date now"]
    by (simp add: quizCounts_def)
qed

theorem quizCounts_counts_witness:
  "list_all (\<lambda>q. scheduled_for q \<noteq> Some []) teacher_rows
   \<and> quizCounts teacher_rows = \<lparr> total = 4, published = 3, scheduled = 3 \<rparr>
   \<and> length (filter (\<lambda>q. scheduled_for q \<noteq> None \<and> elapsed sample_Date sample_now q)
               teacher_rows) = 2"
proof -
  have h: "\<forall>q \<in> set teacher_rows. scheduled_for q \<noteq> Some []"
    by (simp add: teacher_rows_def sample_teacher_quiz_def)
  have f: "length (filter (\<lambda>q. is_published q) teacher_rows) = 3"
    "length (filter (\<lambda>q. scheduled_for q \<noteq> None) teacher_rows) = 3"
    "length teacher_rows = 4"
    by (simp_all add: teacher_rows_def sample_teacher_quiz_def)
  have g: "length (filter (\<lambda>q. scheduled_for q \<noteq> None \<and> elapsed sample_Date sample_now q)
                     teacher_rows) = 2"
    by (simp add: teacher_rows_def sample_teacher_quiz_def elapsed_def scheduled_instant_def
          sample_Date_def sample_now_def date_le_def)
  have "quizCounts teacher_rows
          = \<lparr> total = total (quizCounts teacher_rows),
              published = published (quizCounts teacher_rows),
              scheduled = scheduled (quizCounts teacher_rows) \<rparr>"
    by simp
  then show ?thesis
    using quizCounts_counts [OF h, of sample_Date sample_now] h f g
    by (simp add: list_all_iff)
qed

text \<open>
  C7, as the specification states it: for every list of completed responses and every
  limit, \<open>recentResults\<close> returns the responses ordered by \<^verbatim>\<open>submitted_at\<close> descending,
  truncated to the limit. The component has no limit to set: of seven responses five come
  back, where a limit of three asks for at most three.
\<close>

theorem recentResults_limit_counterexample:
  "length (fst (recentResults (responses_query sample_Date seven_responses))) = 5
   \<and> \<not> length (fst (recentResults (responses_query sample_Date seven_responses))) \<le> 3"
proof -
  have "length (responses_query sample_Date seven_responses) = 7"
    by (simp add: responses_query_def seven_responses_def)
  then show ?thesis by (simp add: recentResults_take)
qed

text \<open>
  C7, amended. For every list of completed responses of the user, \<open>recentResults\<close> on the
  list the component holds, which is the reply of the store to the ordered query and a
  reordering of those responses, returns its first five entries, all of them when there
  are fewer: the limit is the constant 5. They are ordered by \<^verbatim>\<open>submitted_at\<close> descending,
  none left out is more recent than one returned, and the list held is unchanged. Of
  seven responses, in whatever order the table has them, exactly five are returned.
\<close>

theorem recentResults_most_recent_five:
  "fst (recentResults (responses_query Date rows)) = take 5 (responses_query Date rows)
   \<and> mset (responses_query Date rows) = mset rows
   \<and> length (fst (recentResults (responses_query Date rows))) = min 5 (length rows)
   \<and> recent_first Date (fst (recentResults (responses_query Date rows)))
   \<and> (\<forall>a \<in> set (fst (recentResults (responses_query Date rows))).
        \<forall>b \<in> set (drop 5 (responses_query Date rows)).
          Date (submitted_at b) \<le> Date (submitted_at a))
   \<and> snd (recentResults (responses_query Date rows)) = responses_query Date rows"
proof -
  let ?R = "\<lambda>a b. Date (submitted_at b) \<le> Date (submitted_at a)"
  let ?cs = "responses_query Date rows"
  have "sorted_wrt ?R (take 5 ?cs @ drop 5 ?cs)"
    using responses_query_recent_first [of Date rows] by (simp add: recent_first_def)
  then have "sorted_wrt ?R (take 5 ?cs)"
    and "\<forall>a \<in> set (take 5 ?cs). \<forall>b \<in> set (drop 5 ?cs). ?R a b"
    unfolding sorted_wrt_append by blast+
  moreover have "length ?cs = length rows"
    by (simp add: responses_query_def)
  ultimately show ?thesis
    by (simp add: recentResults_take recent_first_def min.commute responses_query_mset)
qed

theorem recentResults_most_recent_five_witness:
  "length (rev seven_responses) = 7
   \<and> map quiz_id (rev seven_responses)
        = [''quiz-7'', ''quiz-6'', ''quiz-5'', ''quiz-4'', ''quiz-3'', ''quiz-2'', ''quiz-1'']
   \<and> length (fst (recentResults (responses_query sample_Date (rev seven_responses)))) = 5
   \<and> map quiz_id (fst (recentResults (responses_query sample_Date (rev seven_responses))))
        = [''quiz-1'', ''quiz-2'', ''quiz-3'', ''quiz-4'', ''quiz-5'']
   \<and> recent_first sample_Date
        (fst (recentResults (responses_query sample_Date (rev seven_responses))))
   \<and> snd (recentResults (responses_query sample_Date (rev seven_responses)))
        = responses_query sample_Date (rev seven_responses)"
proof -
  have l: "length (rev seven_responses) = 7"
    by (simp add: seven_responses_def)
  have i: "map quiz_id (rev seven_responses)
        = [''quiz-7'', ''quiz-6'', ''quiz-5'', ''quiz-4'', ''quiz-3'', ''quiz-2'', ''quiz-1'']"
    by (simp add: seven_responses_def sample_response_def)
  from recentResults_most_recent_five [of sample_Date "rev seven_responses"]
  have f: "fst (recentResults (responses_query sample_Date (rev seven_responses)))
             = take 5 (responses_query sample_Date (rev seven_responses))"
    and n: "length (fst (recentResults (responses_query sample_Date (rev seven_responses))))
             = min 5 (length (rev seven_responses))"
    and o: "recent_first sample_Date
              (fst (recentResults (responses_query sample_Date (rev seven_responses))))"
    and s: "snd (recentResults (responses_query sample_Date (rev seven_responses)))
              = responses_query sample_Date (rev seven_responses)"
    by blast+
  have t: "map quiz_id (fst (recentResults (responses_query sample_Date (rev seven_responses))))
        = [''quiz-1'', ''quiz-2'', ''quiz-3'', ''quiz-4'', ''quiz-5'']"
    unfolding f by (simp add: take_map [symmetric] sample_query)
  show ?thesis
    using l i n o s t by simp
qed

text \<open>
  C9. Filtering by the attempt history is anti-monotone in the attempted set. For every
  list of quizzes and all sets \<open>A \<subseteq> B\<close> of attempted identifiers, the available list
  computed with \<open>B\<close> is a sublist of the one computed with \<open>A\<close>; a quiz that is not visible
  with \<open>A\<close> is not visible with \<open>B\<close>; and the available count with \<open>B\<close> is at most the one
  with \<open>A\<close>.
\<close>

theorem available_antimonotone:
  assumes "A \<subseteq> B"
  shows "subseq (availableList B rows) (availableList A rows)
       \<and> subseq (filteredQuizzes B quizzes) (filteredQuizzes A quizzes)
       \<and> (\<not> visibleToStudent q A \<longrightarrow> \<not> visibleToStudent q B)
       \<and> availableCount (studentStats (availableList B rows) completed)
           \<le> availableCount (studentStats (availableList A rows) completed)"
proof -
  have s: "subseq (availableList B rows) (availableList A rows)"
    unfolding availableList_def by (rule filteredQuizzes_subseq [OF assms])
  then have "length (availableList B rows) \<le> length (availableList A rows)"
    by (rule list_emb_length)
  moreover have "\<not> visibleToStudent q A \<longrightarrow> \<not> visibleToStudent q B"
    using assms by (auto simp: visibleToStudent_def availableList_single)
  ultimately show ?thesis
    using s filteredQuizzes_subseq [OF assms, of quizzes] by (simp add: studentStats_def)
qed

theorem available_antimonotone_witness:
  "({} :: string set) \<subseteq> {''quiz-c''}
   \<and> availableList {} [quiz_A, quiz_B, quiz_C, quiz_D] = [quiz_A, quiz_B, quiz_C]
   \<and> availableList {''quiz-c''} [quiz_A, quiz_B, quiz_C, quiz_D] = [quiz_A, quiz_B]
   \<and> subseq [quiz_A, quiz_B] [quiz_A, quiz_B, quiz_C]
   \<and> \<not> visibleToStudent quiz_D {} \<and> \<not> visibleToStudent quiz_D {''quiz-c''}
   \<and> availableCount (studentStats (availableList {''quiz-c''} [quiz_A, quiz_B, quiz_C, quiz_D]) [])
       \<le> availableCount (studentStats (availableList {} [quiz_A, quiz_B, quiz_C, quiz_D]) [])"
proof -
  have h: "({} :: string set) \<subseteq> {''quiz-c''}" by simp
  have l: "availableList {} [quiz_A, quiz_B, quiz_C, quiz_D] = [quiz_A, quiz_B, quiz_C]"
    "availableList {''quiz-c''} [quiz_A, quiz_B, quiz_C, quiz_D] = [quiz_A, quiz_B]"
    by (simp_all add: availableList_def filteredQuizzes_def eq_is_published_def sample_quizzes)
  have d: "\<not> visibleToStudent quiz_D {}"
    by (simp add: visibleToStudent_def availableList_single sample_quizzes)
  from available_antimonotone [OF h, of "[quiz_A, quiz_B, quiz_C, quiz_D]" None quiz_D "[]"]
  have "subseq (availableList {''quiz-c''} [quiz_A, quiz_B, quiz_C, quiz_D])
          (availableList {} [quiz_A, quiz_B, quiz_C, quiz_D])"
    and "\<not> visibleToStudent quiz_D {} \<longrightarrow> \<not> visibleToStudent quiz_D {''quiz-c''}"
    and "availableCount (studentStats (availableList {''quiz-c''} [quiz_A, quiz_B, quiz_C, quiz_D]) [])
       \<le> availableCount (studentStats (availableList {} [quiz_A, quiz_B, quiz_C, quiz_D]) [])"
    by blast+
  then show ?thesis
    using d l by simp
qed



end
